theory Spec2Isabelle
  imports Complex_Main
begin

section \<open>The chat widget: data model\<close>

text \<open>
  The widget is a React function component with four state cells
  (\<open>isExpanded\<close>, \<open>messages\<close>, \<open>inputText\<close>, \<open>fileContent\<close>).
  A message record is the object literal built in \<open>handleSendMessage\<close>; its
  \<open>text\<close> field is called \<open>msg_text\<close> here, and \<open>sender\<close> is the string the
  source stores (\<open>'user'\<close> or \<open>"bot"\<close>).  The \<open>timestamp\<close> is the string the host
  returns for \<open>new Date().toLocaleTimeString([], ...)\<close>; the host's clock and locale
  are not part of the program, so the string is an input of the model.
\<close>

record message =
  msg_text :: string
  sender :: string
  timestamp :: string

record widget =
  isExpanded :: bool
  messages :: "message list"
  inputText :: string
  fileContent :: string

text \<open>The values of \<open>useState(false)\<close>, \<open>useState([])\<close>, \<open>useState('')\<close>, \<open>useState('')\<close>.\<close>

definition ChatWidget_init :: widget where
  "ChatWidget_init = \<lparr>isExpanded = False, messages = [], inputText = [], fileContent = []\<rparr>"

subsection \<open>JavaScript values, as far as the handler inspects them\<close>

text \<open>
  A parsed JSON payload, with \<open>undefined\<close> added for the result of reading a property
  that is not there.  An object is its list of members in document order.
\<close>

datatype jsval =
    JUndefined
  | JNull
  | JBool bool
  | JNum rat
  | JStr string
  | JArr "jsval list"
  | JObj "(string \<times> jsval) list"

text \<open>
  What the handler can throw or be handed by a rejected promise.  \<open>Error m\<close> is
  \<open>new Error(m)\<close> with a literal message; \<open>ApiError st v\<close> is the
  \<open>new Error(`API Error: ${response.status} - ${errorData.error.message}`)\<close> of the
  non-success branch, kept as the two interpolated values; \<open>TypeError\<close> is the
  engine's error for reading a property of \<open>null\<close>/\<open>undefined\<close> or calling a
  non-function; \<open>SyntaxError\<close> is \<open>response.json()\<close> rejecting on a body that is not
  JSON; \<open>NetworkError\<close> is \<open>fetch\<close> rejecting.
\<close>

datatype exn =
    Error string
  | ApiError nat jsval
  | TypeError
  | SyntaxError
  | NetworkError

text \<open>Truthiness, as \<open>!v\<close> tests it.\<close>

fun truthy :: "jsval \<Rightarrow> bool" where
  "truthy JUndefined = False"
| "truthy JNull = False"
| "truthy (JBool b) = b"
| "truthy (JNum n) = (n \<noteq> 0)"
| "truthy (JStr s) = (s \<noteq> [])"
| "truthy (JArr xs) = True"
| "truthy (JObj kvs) = True"

text \<open>
  Property read \<open>v.k\<close> (and \<open>v[0]\<close>, which is the property \<open>''0''\<close>).  Reading from
  \<open>null\<close> or \<open>undefined\<close> throws; an object yields its member (the last one when a key
  is repeated, as \<open>JSON.parse\<close> keeps it); arrays and strings have \<open>length\<close> and the
  element at index 0; everything else the handler asks for is \<open>undefined\<close>.
\<close>

fun get_prop :: "jsval \<Rightarrow> string \<Rightarrow> exn + jsval" where
  "get_prop JUndefined k = Inl TypeError"
| "get_prop JNull k = Inl TypeError"
| "get_prop (JObj kvs) k =
     Inr (case map_of (rev kvs) k of Some v \<Rightarrow> v | None \<Rightarrow> JUndefined)"
| "get_prop (JArr xs) k =
     Inr (if k = ''length'' then JNum (of_nat (length xs))
          else if k = ''0'' then (case xs of [] \<Rightarrow> JUndefined | x # _ \<Rightarrow> x)
          else JUndefined)"
| "get_prop (JStr s) k =
     Inr (if k = ''length'' then JNum (of_nat (length s))
          else if k = ''0'' then (case s of [] \<Rightarrow> JUndefined | c # _ \<Rightarrow> JStr [c])
          else JUndefined)"
| "get_prop (JBool b) k = Inr JUndefined"
| "get_prop (JNum n) k = Inr JUndefined"

text \<open>
  \<open>String.prototype.trim\<close>: white space and line terminators are stripped from both
  ends.  A \<open>char\<close> is a code unit below 256; in that range the stripped ones are
  TAB, LF, VT, FF, CR, SPACE and NBSP.
\<close>

definition is_ws :: "char \<Rightarrow> bool" where
  "is_ws c = (c \<in> set [CHR 0x09, CHR 0x0A, CHR 0x0B, CHR 0x0C, CHR 0x0D, CHR 0x20, CHR 0xA0])"

definition trim :: "string \<Rightarrow> string" where
  "trim s = rev (dropWhile is_ws (rev (dropWhile is_ws s)))"

text \<open>\<open>v.trim()\<close> on a payload value: only a string has the method.\<close>

fun call_trim :: "jsval \<Rightarrow> exn + string" where
  "call_trim (JStr s) = Inr (trim s)"
| "call_trim v = Inl TypeError"

text \<open>Sequencing of steps that may throw.\<close>

fun and_then :: "exn + 'a \<Rightarrow> ('a \<Rightarrow> exn + 'b) \<Rightarrow> exn + 'b" where
  "and_then (Inl e) f = Inl e"
| "and_then (Inr v) f = f v"

subsection \<open>The outside world\<close>

text \<open>
  The request handed to \<open>fetch\<close>: the URL, the \<open>method\<close>, the \<open>headers\<close> in the order
  written, and the object given to \<open>JSON.stringify\<close> for the body.
\<close>

record request =
  url :: string
  http_method :: string
  headers :: "(string \<times> string) list"
  body :: jsval

text \<open>
  What \<open>fetch\<close> settles with: a rejection, or a response with its \<open>ok\<close> flag, its
  \<open>status\<close> and what \<open>response.json()\<close> gives (\<open>None\<close>: the body is not JSON and the
  promise rejects).
\<close>

record response =
  ok :: bool
  status :: nat
  json :: "jsval option"

datatype fetch_result = Rejected | Response response

text \<open>
  The world a handler acts on: React's state cells, the lines written with
  \<open>console.error\<close> (each is the logged error), and the requests issued so far.
\<close>

record world =
  state :: widget
  console :: "exn list"
  requests :: "request list"

definition setIsExpanded :: "bool \<Rightarrow> world \<Rightarrow> world" where
  "setIsExpanded b w = w\<lparr>state := (state w)\<lparr>isExpanded := b\<rparr>\<rparr>"

text \<open>\<open>setMessages(v)\<close> with a value, and \<open>setMessages(prev => f(prev))\<close> with an updater.\<close>

definition setMessages :: "message list \<Rightarrow> world \<Rightarrow> world" where
  "setMessages v w = w\<lparr>state := (state w)\<lparr>messages := v\<rparr>\<rparr>"

definition setMessages_with :: "(message list \<Rightarrow> message list) \<Rightarrow> world \<Rightarrow> world" where
  "setMessages_with f w = w\<lparr>state := (state w)\<lparr>messages := f (messages (state w))\<rparr>\<rparr>"

definition setInputText :: "string \<Rightarrow> world \<Rightarrow> world" where
  "setInputText v w = w\<lparr>state := (state w)\<lparr>inputText := v\<rparr>\<rparr>"

definition setFileContent :: "string \<Rightarrow> world \<Rightarrow> world" where
  "setFileContent v w = w\<lparr>state := (state w)\<lparr>fileContent := v\<rparr>\<rparr>"

definition console_error :: "exn \<Rightarrow> world \<Rightarrow> world" where
  "console_error e w = w\<lparr>console := console w @ [e]\<rparr>"

definition fetch :: "request \<Rightarrow> world \<Rightarrow> world" where
  "fetch rq w = w\<lparr>requests := requests w @ [rq]\<rparr>"

section \<open>The handler of the completion-service widget\<close>

text \<open>
  \<open>handleSendMessage\<close> is a closure of one render of the component: the names
  \<open>messages\<close>, \<open>inputText\<close> and \<open>fileContent\<close> in its body are the constants that
  render bound, not the state cells.  The render is the argument \<open>r\<close>; the setters
  act on the world \<open>w\<close>.  \<open>apiKey\<close> is \<open>process.env.REACT_APP_OPENAI_API_KEY\<close>
  (\<open>None\<close> when unset) and \<open>now\<close> the formatted clock reading.
\<close>

definition newline :: char where
  "newline = CHR 0x0A"

definition prompt_of :: "string \<Rightarrow> string \<Rightarrow> string" where
  "prompt_of context input =
     ''Context: '' @ context @ [newline, newline] @ ''User: '' @ input
       @ [newline, newline] @ ''Bot:''"

definition completion_request :: "string \<Rightarrow> string \<Rightarrow> string \<Rightarrow> request" where
  "completion_request key context input =
     \<lparr>url = ''https://api.openai.com/v1/completions'',
      http_method = ''POST'',
      headers = [(''Content-Type'', ''application/json''),
                 (''Authorization'', ''Bearer '' @ key)],
      body = JObj [(''model'', JStr ''text-davinci-003''),
                   (''prompt'', JStr (prompt_of context input)),
                   (''max_tokens'', JNum 150),
                   (''temperature'', JNum (7 / 10))]\<rparr>"

text \<open>\<open>if (!apiKey) throw ...\<close>: unset and the empty string are both falsy.\<close>

definition check_key :: "string option \<Rightarrow> exn + string" where
  "check_key apiKey =
     (case apiKey of
        None \<Rightarrow> Inl (Error ''API key is missing. Make sure it's set in your .env file.'')
      | Some k \<Rightarrow>
          if k = [] then Inl (Error ''API key is missing. Make sure it's set in your .env file.'')
          else Inr k)"

text \<open>
  How a run of handler code ends: it returned, it left a continuation with the host
  (the awaited \<open>fetch\<close>, a timer), or an exception left it uncaught.
\<close>

datatype outcome = Returned | Pending | Threw exn

text \<open>
  The \<open>catch (error)\<close> block: one console line with \<open>error.message\<close>; every
  value of \<open>exn\<close> is an error object, so the block itself ends normally.
\<close>

definition catch_block :: "exn \<Rightarrow> world \<Rightarrow> outcome \<times> world" where
  "catch_block e w = (Returned, console_error e w)"

text \<open>
  The part of the handler that runs inside the event, up to \<open>await fetch(...)\<close>.
\<close>

definition handleSendMessage ::
  "widget \<Rightarrow> string option \<Rightarrow> string \<Rightarrow> world \<Rightarrow> outcome \<times> world" where
  "handleSendMessage r apiKey now w =
     (if trim (inputText r) = [] then (Returned, w)
      else
        let newMessage = \<lparr>msg_text = inputText r, sender = ''user'', timestamp = now\<rparr>;
            w1 = setMessages (messages r @ [newMessage]) w;
            w2 = setInputText [] w1
        in case check_key apiKey of
             Inl e \<Rightarrow> catch_block e w2
           | Inr key \<Rightarrow>
               (Pending, fetch (completion_request key (fileContent r) (inputText r)) w2))"

text \<open>The non-success branch: it always throws, after reading the error body.\<close>

definition api_error :: "response \<Rightarrow> exn" where
  "api_error resp =
     (case (case json resp of None \<Rightarrow> Inl SyntaxError | Some errorData \<Rightarrow> Inr errorData) of
        Inl e \<Rightarrow> e
      | Inr errorData \<Rightarrow>
          (case and_then (get_prop errorData ''error'') (\<lambda>err. get_prop err ''message'') of
             Inl e \<Rightarrow> e
           | Inr m \<Rightarrow> ApiError (status resp) m))"

text \<open>
  \<open>data.choices\<close>, the test \<open>!data.choices || data.choices.length === 0\<close>, and
  \<open>data.choices[0].text.trim()\<close>.
\<close>

definition completion_text :: "jsval \<Rightarrow> exn + string" where
  "completion_text data =
     and_then (get_prop data ''choices'') (\<lambda>choices.
       if \<not> truthy choices then Inl (Error ''Invalid response from OpenAI API.'')
       else and_then (get_prop choices ''length'') (\<lambda>len.
         if len = JNum 0 then Inl (Error ''Invalid response from OpenAI API.'')
         else and_then (get_prop choices ''0'') (\<lambda>first.
              and_then (get_prop first ''text'') call_trim)))"

text \<open>Everything between the settling of \<open>fetch\<close> and the construction of the bot record.\<close>

definition bot_text :: "fetch_result \<Rightarrow> exn + string" where
  "bot_text fr =
     (case fr of
        Rejected \<Rightarrow> Inl NetworkError
      | Response resp \<Rightarrow>
          if \<not> ok resp then Inl (api_error resp)
          else (case json resp of
                  None \<Rightarrow> Inl SyntaxError
                | Some data \<Rightarrow> completion_text data))"

text \<open>
  The rest of the handler, run when \<open>fetch\<close> has settled with \<open>fr\<close>; \<open>now\<close> is the
  clock reading of that moment.  The bot record goes through the updater form of
  \<open>setMessages\<close>.
\<close>

definition handleSendMessage_resume ::
  "fetch_result \<Rightarrow> string \<Rightarrow> world \<Rightarrow> outcome \<times> world" where
  "handleSendMessage_resume fr now w =
     (case bot_text fr of
        Inl e \<Rightarrow> catch_block e w
      | Inr t \<Rightarrow>
          let botResponse = \<lparr>msg_text = t, sender = ''bot'', timestamp = now\<rparr>
          in (Returned, setMessages_with (\<lambda>prevMessages. prevMessages @ [botResponse]) w))"

text \<open>
  One submission run to its end with nothing in between: the handler of render \<open>r\<close>,
  and, when it is waiting for \<open>fetch\<close>, its continuation on the result \<open>fr\<close>.
\<close>

definition exchange ::
  "widget \<Rightarrow> string option \<Rightarrow> string \<Rightarrow> fetch_result \<Rightarrow> string \<Rightarrow> world \<Rightarrow> outcome \<times> world" where
  "exchange r apiKey now fr now' w =
     (case handleSendMessage r apiKey now w of
        (Pending, w1) \<Rightarrow> handleSendMessage_resume fr now' w1
      | (out, w1) \<Rightarrow> (out, w1))"

text \<open>
  The completion field the handler expects, read along the path
  \<open>data.choices[0].text\<close>: present when that path ends in a string.
\<close>

definition completion_field :: "jsval \<Rightarrow> string option" where
  "completion_field data =
     (case and_then (and_then (get_prop data ''choices'') (\<lambda>choices. get_prop choices ''0''))
             (\<lambda>first. get_prop first ''text'') of
        Inr (JStr t) \<Rightarrow> Some t
      | _ \<Rightarrow> None)"

section \<open>The handler of the simulated-reply widget\<close>

text \<open>
  \<open>src/ChatWidget.jsx\<close> has the same component with a timer in place of the
  request: the handler appends the user record, clears the input and calls
  \<open>setTimeout(..., 500)\<close>; the timer's callback appends the reply.  The callback is a
  closure of the same render, so its \<open>inputText\<close> is the text that was submitted.
\<close>

definition handleSendMessage_sim :: "widget \<Rightarrow> string \<Rightarrow> world \<Rightarrow> outcome \<times> world" where
  "handleSendMessage_sim r now w =
     (if trim (inputText r) = [] then (Returned, w)
      else
        let newMessage = \<lparr>msg_text = inputText r, sender = ''user'', timestamp = now\<rparr>;
            w1 = setMessages (messages r @ [newMessage]) w;
            w2 = setInputText [] w1
        in (Pending, w2))"

definition sim_timeout :: "widget \<Rightarrow> string \<Rightarrow> world \<Rightarrow> outcome \<times> world" where
  "sim_timeout r now w =
     (let botResponse = \<lparr>msg_text = ''You said: '' @ inputText r, sender = ''bot'',
                          timestamp = now\<rparr>
      in (Returned, setMessages_with (\<lambda>prevMessages. prevMessages @ [botResponse]) w))"

section \<open>The widget in its host\<close>

text \<open>
  The running widget: the world, whose state cells hold every update made so far, the
  last render React committed (\<open>view\<close>: what is on screen, and the render whose
  handlers the next event calls), and the number of requests still in flight.

  The events are the clicks on the two toggle buttons, a change of the input box, a
  submission (Send button or Enter), the settling of a request in flight, the arrival of
  the context document, and React rendering everything it has queued.  An update made
  in a promise callback is queued and rendered later, which is the event \<open>Render\<close>.
  At the end of a user event React renders at once.  What that render does with
  updates still queued from promise callbacks depends on the React release: React 18
  leaves them for the later render and applies the event's own updates to the last
  render, React 19 takes them in.  The host says which.  The open button exists only
  while the view is collapsed, the window with the input box only while it is expanded.
\<close>

record sys =
  world :: world
  view :: widget
  inflight :: nat

datatype event =
    Expand
  | Collapse
  | Change string
  | Send string
  | Settle fetch_result string
  | FileLoaded string
  | Render

datatype host = Leaves_queued | Takes_queued

definition mount :: sys where
  "mount = \<lparr>world = \<lparr>state = ChatWidget_init, console = [], requests = []\<rparr>,
            view = ChatWidget_init, inflight = 0\<rparr>"

text \<open>React renders everything queued.\<close>

definition commit :: "sys \<Rightarrow> sys" where
  "commit s = s\<lparr>view := state (world s)\<rparr>"

text \<open>
  A user event whose handler makes the updates \<open>act\<close>: the updates go into the state
  cells, and the render at the end of the event shows either the last render with
  these updates applied, or the state cells as they now are.
\<close>

definition dispatch :: "host \<Rightarrow> (world \<Rightarrow> world) \<Rightarrow> sys \<Rightarrow> sys" where
  "dispatch h act s =
     s\<lparr>world := act (world s),
       view := (case h of
                  Leaves_queued \<Rightarrow> state (act ((world s)\<lparr>state := view s\<rparr>))
                | Takes_queued \<Rightarrow> state (act (world s)))\<rparr>"

fun step :: "host \<Rightarrow> string option \<Rightarrow> sys \<Rightarrow> event \<Rightarrow> sys" where
  "step h apiKey s Expand =
     (if isExpanded (view s) then s else dispatch h (setIsExpanded True) s)"
| "step h apiKey s Collapse =
     (if isExpanded (view s) then dispatch h (setIsExpanded False) s else s)"
| "step h apiKey s (Change v) =
     (if isExpanded (view s) then dispatch h (setInputText v) s else s)"
| "step h apiKey s (Send now) =
     (if isExpanded (view s) then
        (let s' = dispatch h (\<lambda>w. snd (handleSendMessage (view s) apiKey now w)) s
         in case fst (handleSendMessage (view s) apiKey now (world s)) of
              Pending \<Rightarrow> s'\<lparr>inflight := Suc (inflight s)\<rparr>
            | _ \<Rightarrow> s')
      else s)"
| "step h apiKey s (Settle fr now) =
     (if inflight s = 0 then s
      else s\<lparr>world := snd (handleSendMessage_resume fr now (world s)),
             inflight := inflight s - 1\<rparr>)"
| "step h apiKey s (FileLoaded t) = s\<lparr>world := setFileContent t (world s)\<rparr>"
| "step h apiKey s Render = commit s"

definition run :: "host \<Rightarrow> string option \<Rightarrow> sys \<Rightarrow> event list \<Rightarrow> sys" where
  "run h apiKey s es = foldl (step h apiKey) s es"

text \<open>The transcript as it is stored, and as text and sender only.\<close>

definition transcript :: "sys \<Rightarrow> message list" where
  "transcript s = messages (state (world s))"

definition shown :: "message list \<Rightarrow> (string \<times> string) list" where
  "shown ms = map (\<lambda>m. (msg_text m, sender m)) ms"

section \<open>The timestamp\<close>


datatype host_locale = En_US | En_GB | De_DE | Fr_FR | Fi_FI








subsection \<open>Concrete inputs\<close>

text \<open>
  A render of the expanded widget with \<open>t\<close> in the input box and an empty transcript,
  the world in that state, a success response of the completion service whose first
  choice has the text \<open>t\<close>, a success response whose first choice has no text, a
  status 500 with the service's error object, and a status 502 whose body is not JSON.
\<close>

definition typed :: "string \<Rightarrow> widget" where
  "typed t = \<lparr>isExpanded = True, messages = [], inputText = t, fileContent = []\<rparr>"

definition fresh :: "string \<Rightarrow> world" where
  "fresh t = \<lparr>state = typed t, console = [], requests = []\<rparr>"

definition completion_response :: "string \<Rightarrow> response" where
  "completion_response t =
     \<lparr>ok = True, status = 200,
      json = Some (JObj [(''choices'', JArr [JObj [(''text'', JStr t)]])])\<rparr>"

definition choice_without_text :: response where
  "choice_without_text =
     \<lparr>ok = True, status = 200, json = Some (JObj [(''choices'', JArr [JObj []])])\<rparr>"

definition http_500 :: response where
  "http_500 = \<lparr>ok = False, status = 500,
     json = Some (JObj [(''error'', JObj [(''message'', JStr ''overloaded'')])])\<rparr>"

definition bad_gateway :: response where
  "bad_gateway = \<lparr>ok = False, status = 502, json = None\<rparr>"

section \<open>Basic facts\<close>

text \<open>
  Trimming leaves nothing exactly when every character is white space; the setters
  touch one cell each.
\<close>

lemma trim_empty_iff: "trim s = [] \<longleftrightarrow> (\<forall>c\<in>set s. is_ws c)"
proof
  assume "trim s = []"
  then have all: "\<forall>c\<in>set (dropWhile is_ws s). is_ws c"
    by (simp add: trim_def)
  have "dropWhile is_ws s = []"
  proof (rule ccontr)
    assume ne: "dropWhile is_ws s \<noteq> []"
    then have "\<not> is_ws (hd (dropWhile is_ws s))" by (rule hd_dropWhile)
    moreover from ne have "hd (dropWhile is_ws s) \<in> set (dropWhile is_ws s)" by simp
    ultimately show False using all by blast
  qed
  then show "\<forall>c\<in>set s. is_ws c" by simp
next
  assume "\<forall>c\<in>set s. is_ws c"
  then have e: "dropWhile is_ws s = []" by simp
  show "trim s = []" unfolding trim_def e by simp
qed

lemma state_setters [simp]:
  "state (setMessages v w) = (state w)\<lparr>messages := v\<rparr>"
  "state (setMessages_with f w) = (state w)\<lparr>messages := f (messages (state w))\<rparr>"
  "state (setInputText t w) = (state w)\<lparr>inputText := t\<rparr>"
  "state (setIsExpanded b w) = (state w)\<lparr>isExpanded := b\<rparr>"
  "state (setFileContent t w) = (state w)\<lparr>fileContent := t\<rparr>"
  "state (console_error e w) = state w"
  "state (fetch rq w) = state w"
  by (simp_all add: setMessages_def setMessages_with_def setInputText_def setIsExpanded_def
      setFileContent_def console_error_def fetch_def)

lemma console_setters [simp]:
  "console (setMessages v w) = console w"
  "console (setMessages_with f w) = console w"
  "console (setInputText t w) = console w"
  "console (setIsExpanded b w) = console w"
  "console (setFileContent t w) = console w"
  "console (console_error e w) = console w @ [e]"
  "console (fetch rq w) = console w"
  by (simp_all add: setMessages_def setMessages_with_def setInputText_def setIsExpanded_def
      setFileContent_def console_error_def fetch_def)

lemma requests_setters [simp]:
  "requests (setMessages v w) = requests w"
  "requests (setMessages_with f w) = requests w"
  "requests (setInputText t w) = requests w"
  "requests (setIsExpanded b w) = requests w"
  "requests (setFileContent t w) = requests w"
  "requests (console_error e w) = requests w"
  "requests (fetch rq w) = requests w @ [rq]"
  by (simp_all add: setMessages_def setMessages_with_def setInputText_def setIsExpanded_def
      setFileContent_def console_error_def fetch_def)

text \<open>
  Reading the payload: a non-empty \<open>choices\<close> array whose first entry has a string
  under \<open>text\<close> gives that string trimmed; a payload in which the path
  \<open>choices[0].text\<close> does not end in a string makes the handler throw.
\<close>

lemma completion_text_of_choices:
  assumes "get_prop data ''choices'' = Inr (JArr (c # cs))"
    and "get_prop c ''text'' = Inr (JStr t)"
  shows "completion_text data = Inr (trim t)"
  using assms by (simp add: completion_text_def)

lemma get_prop_truthy: "truthy v \<Longrightarrow> \<exists>u. get_prop v k = Inr u"
  by (cases v) simp_all

lemma call_trim_not_string: "(\<forall>t. v \<noteq> JStr t) \<Longrightarrow> call_trim v = Inl TypeError"
  by (cases v) simp_all

lemma completion_text_without_field:
  assumes "completion_field data = None"
  shows "\<exists>e. completion_text data = Inl e"
proof (cases "get_prop data ''choices''")
  case (Inl e)
  then show ?thesis by (simp add: completion_text_def)
next
  case (Inr choices)
  show ?thesis
  proof (cases "truthy choices")
    case False
    with Inr show ?thesis by (simp add: completion_text_def)
  next
    case True
    obtain len where len: "get_prop choices ''length'' = Inr len"
      using get_prop_truthy [OF True] by blast
    obtain first where first: "get_prop choices ''0'' = Inr first"
      using get_prop_truthy [OF True] by blast
    show ?thesis
    proof (cases "get_prop first ''text''")
      case (Inl e)
      with Inr True len first show ?thesis by (simp add: completion_text_def)
    next
      case tv: (Inr v)
      have "\<forall>t. v \<noteq> JStr t"
        using assms Inr first tv by (auto simp: completion_field_def)
      then have "call_trim v = Inl TypeError" by (rule call_trim_not_string)
      with Inr True len first tv show ?thesis by (simp add: completion_text_def)
    qed
  qed
qed

text \<open>The two ways the continuation ends, and the two ways the event part ends.\<close>

lemma resume_on_failure:
  "bot_text fr = Inl e \<Longrightarrow> handleSendMessage_resume fr now w = (Returned, console_error e w)"
  by (simp add: handleSendMessage_resume_def catch_block_def)

lemma resume_on_success:
  "bot_text fr = Inr t \<Longrightarrow>
   handleSendMessage_resume fr now w =
     (Returned, setMessages_with (\<lambda>prev. prev @ [\<lparr>msg_text = t, sender = ''bot'', timestamp = now\<rparr>]) w)"
  by (simp add: handleSendMessage_resume_def)

lemma check_key_present: "key \<noteq> [] \<Longrightarrow> check_key (Some key) = Inr key"
  by (simp add: check_key_def)

lemma check_key_missing:
  "apiKey = None \<or> apiKey = Some [] \<Longrightarrow> \<exists>m. check_key apiKey = Inl (Error m)"
  by (auto simp: check_key_def)

lemma send_with_key:
  assumes "trim (inputText r) \<noteq> []" and "key \<noteq> []"
  shows "handleSendMessage r (Some key) now w =
    (Pending,
     fetch (completion_request key (fileContent r) (inputText r))
       (setInputText []
         (setMessages (messages r @ [\<lparr>msg_text = inputText r, sender = ''user'', timestamp = now\<rparr>]) w)))"
  using assms by (simp add: handleSendMessage_def check_key_present)

lemma send_without_key:
  assumes "trim (inputText r) \<noteq> []" and "apiKey = None \<or> apiKey = Some []"
  shows "\<exists>m. handleSendMessage r apiKey now w =
    (Returned,
     console_error (Error m)
       (setInputText []
         (setMessages (messages r @ [\<lparr>msg_text = inputText r, sender = ''user'', timestamp = now\<rparr>]) w)))"
  using assms check_key_missing [of apiKey]
  by (auto simp: handleSendMessage_def catch_block_def)

text \<open>Failures of the response.\<close>

lemma bot_text_not_ok: "\<not> ok resp \<Longrightarrow> bot_text (Response resp) = Inl (api_error resp)"
  by (simp add: bot_text_def)

lemma bot_text_without_field:
  "ok resp \<Longrightarrow> json resp = Some data \<Longrightarrow> completion_field data = None \<Longrightarrow>
   \<exists>e. bot_text (Response resp) = Inl e"
  using completion_text_without_field [of data] by (simp add: bot_text_def)

lemma api_error_non_json: "json resp = None \<Longrightarrow> api_error resp = SyntaxError"
  by (simp add: api_error_def)

lemma api_error_shapeless:
  "json resp = Some errorData \<Longrightarrow> get_prop errorData ''error'' = Inr JUndefined \<Longrightarrow>
   api_error resp = TypeError"
  by (simp add: api_error_def)

lemma handleSendMessage_outcome:
  "fst (handleSendMessage r apiKey now w) = Returned \<or> fst (handleSendMessage r apiKey now w) = Pending"
  by (simp add: handleSendMessage_def catch_block_def Let_def split: sum.splits)

lemma resume_outcome: "fst (handleSendMessage_resume fr now w) = Returned"
  by (cases "bot_text fr") (simp_all add: resume_on_failure resume_on_success)

text \<open>Any sequence of calls of \<open>setIsExpanded\<close> amounts to one write of that cell.\<close>

lemma fold_setIsExpanded:
  "\<exists>b. fold setIsExpanded bs w = w\<lparr>state := (state w)\<lparr>isExpanded := b\<rparr>\<rparr>"
proof (induction bs arbitrary: w)
  case Nil
  have "fold setIsExpanded [] w = w\<lparr>state := (state w)\<lparr>isExpanded := isExpanded (state w)\<rparr>\<rparr>"
    by simp
  then show ?case by (rule exI)
next
  case (Cons b bs)
  obtain b' where "fold setIsExpanded bs (setIsExpanded b w)
      = (setIsExpanded b w)\<lparr>state := (state (setIsExpanded b w))\<lparr>isExpanded := b'\<rparr>\<rparr>"
    using Cons.IH [of "setIsExpanded b w"] by blast
  then have "fold setIsExpanded (b # bs) w = w\<lparr>state := (state w)\<lparr>isExpanded := b'\<rparr>\<rparr>"
    by (simp add: setIsExpanded_def)
  then show ?case by blast
qed

text \<open>
  A submission from a render that shows the current transcript appends the user record,
  and any bot record of the exchange comes after it.
\<close>

lemma user_record_first_when_current:
  assumes nonempty: "trim (inputText r) \<noteq> []"
    and current: "messages r = messages (state w)"
  shows "messages (state (snd (handleSendMessage r apiKey now w)))
           = messages (state w) @ [\<lparr>msg_text = inputText r, sender = ''user'', timestamp = now\<rparr>]
       \<and> (\<exists>bots. messages (state (snd (exchange r apiKey now fr now' w)))
                    = messages (state w)
                      @ [\<lparr>msg_text = inputText r, sender = ''user'', timestamp = now\<rparr>] @ bots
                  \<and> (bots = [] \<or> (\<exists>t. bots = [\<lparr>msg_text = t, sender = ''bot'', timestamp = now'\<rparr>])))
       \<and> messages (state (snd (handleSendMessage_sim r now w)))
           = messages (state w) @ [\<lparr>msg_text = inputText r, sender = ''user'', timestamp = now\<rparr>]
       \<and> messages (state (snd (sim_timeout r now' (snd (handleSendMessage_sim r now w)))))
           = messages (state w)
             @ [\<lparr>msg_text = inputText r, sender = ''user'', timestamp = now\<rparr>,
                \<lparr>msg_text = ''You said: '' @ inputText r, sender = ''bot'', timestamp = now'\<rparr>]"
proof -
  let ?u = "\<lparr>msg_text = inputText r, sender = ''user'', timestamp = now\<rparr>"
  have first: "messages (state (snd (handleSendMessage r apiKey now w))) = messages (state w) @ [?u]"
    using nonempty current
    by (simp add: handleSendMessage_def catch_block_def Let_def split: sum.splits)
  have sim: "messages (state (snd (handleSendMessage_sim r now w))) = messages (state w) @ [?u]"
    using nonempty current by (simp add: handleSendMessage_sim_def)
  have tmo: "messages (state (snd (sim_timeout r now' (snd (handleSendMessage_sim r now w)))))
           = messages (state w) @ [?u,
                \<lparr>msg_text = ''You said: '' @ inputText r, sender = ''bot'', timestamp = now'\<rparr>]"
    using sim by (simp add: sim_timeout_def)
  have ex: "\<exists>bots. messages (state (snd (exchange r apiKey now fr now' w)))
                    = messages (state w) @ [?u] @ bots
                  \<and> (bots = [] \<or> (\<exists>t. bots = [\<lparr>msg_text = t, sender = ''bot'', timestamp = now'\<rparr>]))"
  proof (cases "check_key apiKey")
    case (Inl e)
    then have "messages (state (snd (exchange r apiKey now fr now' w))) = messages (state w) @ [?u] @ []"
      using nonempty current
      by (simp add: exchange_def handleSendMessage_def catch_block_def Let_def)
    then show ?thesis by blast
  next
    case (Inr key)
    show ?thesis
    proof (cases "bot_text fr")
      case (Inl e)
      then have "messages (state (snd (exchange r apiKey now fr now' w))) = messages (state w) @ [?u] @ []"
        using nonempty current Inr
        by (simp add: exchange_def handleSendMessage_def resume_on_failure Let_def)
      then show ?thesis by blast
    next
      case bt: (Inr t)
      then have "messages (state (snd (exchange r apiKey now fr now' w)))
          = messages (state w) @ [?u] @ [\<lparr>msg_text = t, sender = ''bot'', timestamp = now'\<rparr>]"
        using nonempty current Inr
        by (simp add: exchange_def handleSendMessage_def resume_on_success Let_def)
      then show ?thesis by blast
    qed
  qed
  from first ex sim tmo show ?thesis by blast
qed






text \<open>
  As long as the render on screen shows the current transcript, every event of the
  host extends the transcript at its end.
\<close>

lemma step_extends_transcript:
  assumes "messages (view s) = messages (state (world s))"
  shows "\<exists>ms. transcript (step h apiKey s e) = transcript s @ ms"
proof (cases e)
  case (Send now)
  show ?thesis
  proof (cases "isExpanded (view s) \<and> trim (inputText (view s)) \<noteq> []")
    case True
    then have "transcript (step h apiKey s e) = transcript s
         @ [\<lparr>msg_text = inputText (view s), sender = ''user'', timestamp = now\<rparr>]"
      using assms Send
      by (simp add: transcript_def dispatch_def handleSendMessage_def catch_block_def Let_def
          split: sum.splits outcome.splits)
    then show ?thesis by blast
  next
    case False
    then have "transcript (step h apiKey s e) = transcript s @ []"
      using Send
      by (auto simp: transcript_def dispatch_def handleSendMessage_def Let_def
          split: outcome.splits)
    then show ?thesis by blast
  qed
next
  case (Settle fr now)
  show ?thesis
  proof (cases "inflight s = 0")
    case True
    with Settle have "transcript (step h apiKey s e) = transcript s @ []" by simp
    then show ?thesis by blast
  next
    case False
    show ?thesis
    proof (cases "bot_text fr")
      case (Inl x)
      with False Settle have "transcript (step h apiKey s e) = transcript s @ []"
        by (simp add: transcript_def resume_on_failure)
      then show ?thesis by blast
    next
      case (Inr t)
      with False Settle have "transcript (step h apiKey s e) = transcript s
          @ [\<lparr>msg_text = t, sender = ''bot'', timestamp = now\<rparr>]"
        by (simp add: transcript_def resume_on_success)
      then show ?thesis by blast
    qed
  qed
qed (simp_all add: transcript_def commit_def dispatch_def)

section \<open>The claims of the specification\<close>

subsection \<open>C1: a completion with its text appends one trimmed bot record\<close>

text \<open>
  Claim C1, as the code has it.  A non-empty input is submitted with the credential
  present (set and not the empty string): the handler issues its request and waits.
  When the response is a success (\<open>ok\<close>) whose payload has a non-empty \<open>choices\<close>
  array, the first entry carrying a string as its completion text \<open>t\<close>, the
  continuation appends exactly one record to
  whatever the transcript is at that moment: the bot record with text \<open>trim t\<close>; it
  writes nothing to the console.  With nothing in between, the submission turns the
  transcript of its render into that transcript, the user record, the bot record.
\<close>

theorem bot_record_on_success:
  assumes nonempty: "trim (inputText r) \<noteq> []"
    and key: "apiKey = Some key" "key \<noteq> []"
    and resp: "ok resp" "json resp = Some data"
    and choices: "get_prop data ''choices'' = Inr (JArr (c # cs))"
    and field: "get_prop c ''text'' = Inr (JStr t)"
  shows "fst (handleSendMessage r apiKey now w) = Pending
       \<and> messages (state (snd (handleSendMessage_resume (Response resp) now' w1)))
           = messages (state w1) @ [\<lparr>msg_text = trim t, sender = ''bot'', timestamp = now'\<rparr>]
       \<and> console (snd (handleSendMessage_resume (Response resp) now' w1)) = console w1
       \<and> messages (state (snd (exchange r apiKey now (Response resp) now' w)))
           = messages r @ [\<lparr>msg_text = inputText r, sender = ''user'', timestamp = now\<rparr>,
                           \<lparr>msg_text = trim t, sender = ''bot'', timestamp = now'\<rparr>]"
proof -
  have bt: "bot_text (Response resp) = Inr (trim t)"
    using resp completion_text_of_choices [OF choices field] by (simp add: bot_text_def)
  have send: "handleSendMessage r apiKey now w =
    (Pending,
     fetch (completion_request key (fileContent r) (inputText r))
       (setInputText []
         (setMessages (messages r @ [\<lparr>msg_text = inputText r, sender = ''user'', timestamp = now\<rparr>]) w)))"
    using send_with_key [OF nonempty key(2)] key(1) by simp
  show ?thesis
    by (simp add: send exchange_def resume_on_success [OF bt])
qed

text \<open>
  The example of the specification: input \<open>hello\<close>, completion text
  \<open>" hi there "\<close>, transcript \<open>hello\<close> from the user and \<open>hi there\<close> from the bot.
\<close>

theorem bot_record_on_success_witness:
  "trim (inputText (typed ''hello'')) \<noteq> []
   \<and> ok (completion_response '' hi there '')
   \<and> shown (messages (state (snd (exchange (typed ''hello'') (Some ''sk'') ''10:00''
              (Response (completion_response '' hi there '')) ''10:01'' (fresh ''hello'')))))
       = [(''hello'', ''user''), (''hi there'', ''bot'')]"
  using bot_record_on_success [of "typed ''hello''" "Some ''sk''" "''sk''"
      "completion_response '' hi there ''"
      "JObj [(''choices'', JArr [JObj [(''text'', JStr '' hi there '')]])]"
      "JObj [(''text'', JStr '' hi there '')]" "[]" "'' hi there ''"
      "''10:00''" "fresh ''hello''" "''10:01''" "fresh ''hello''"]
  by (simp add: typed_def completion_response_def trim_def is_ws_def shown_def)

text \<open>
  Claim C1 as stated takes the credential, the success status and a non-empty
  \<open>choices\<close> array for a successful request.  The handler tests only those before it
  reads \<open>data.choices[0].text.trim()\<close>: with the payload \<open>{"choices": [{}]}\<close> all
  three hold, the read throws, and the exchange ends with the user record alone in the
  transcript and one line on the console.
\<close>

theorem bot_record_without_text_counterexample:
  "trim (inputText (typed ''hello'')) \<noteq> []
   \<and> check_key (Some ''sk'') = Inr ''sk''
   \<and> ok choice_without_text
   \<and> json choice_without_text = Some (JObj [(''choices'', JArr [JObj []])])
   \<and> get_prop (JObj [(''choices'', JArr [JObj []])]) ''choices'' = Inr (JArr [JObj []])
   \<and> fst (handleSendMessage (typed ''hello'') (Some ''sk'') ''10:00'' (fresh ''hello'')) = Pending
   \<and> shown (messages (state (snd (exchange (typed ''hello'') (Some ''sk'') ''10:00''
              (Response choice_without_text) ''10:01'' (fresh ''hello'')))))
       = [(''hello'', ''user'')]
   \<and> console (snd (exchange (typed ''hello'') (Some ''sk'') ''10:00''
              (Response choice_without_text) ''10:01'' (fresh ''hello''))) = [TypeError]"
  by (simp add: typed_def fresh_def choice_without_text_def trim_def is_ws_def shown_def
      exchange_def handleSendMessage_def handleSendMessage_resume_def bot_text_def
      completion_text_def check_key_def catch_block_def Let_def)

subsection \<open>C2: a failed exchange appends no bot record\<close>

text \<open>
  Claim C2.  A non-empty input is submitted.  If the credential is missing (unset or
  the empty string), the handler appends the user record, writes one line to the
  console and returns: no request is issued and no bot record is appended.  If the
  response has a non-success status, or its payload lacks the completion field, the
  continuation writes one line to the console and changes nothing else: the
  transcript, with the user record in it, is as it was, no bot record is appended,
  and no further request is issued.
\<close>

theorem no_bot_record_on_failure:
  assumes nonempty: "trim (inputText r) \<noteq> []"
  shows "(apiKey = None \<or> apiKey = Some [] \<longrightarrow>
            (\<exists>e. handleSendMessage r apiKey now w
                   = (Returned, w\<lparr>state := (state w)\<lparr>messages := messages r @
                        [\<lparr>msg_text = inputText r, sender = ''user'', timestamp = now\<rparr>],
                        inputText := []\<rparr>, console := console w @ [e]\<rparr>)))
       \<and> ((\<not> ok resp \<or> (\<exists>data. json resp = Some data \<and> completion_field data = None)) \<longrightarrow>
            (\<exists>e. handleSendMessage_resume (Response resp) now' w1
                   = (Returned, w1\<lparr>console := console w1 @ [e]\<rparr>)))"
proof (intro conjI impI)
  assume "apiKey = None \<or> apiKey = Some []"
  from send_without_key [OF nonempty this, of now w]
  show "\<exists>e. handleSendMessage r apiKey now w
                   = (Returned, w\<lparr>state := (state w)\<lparr>messages := messages r @
                        [\<lparr>msg_text = inputText r, sender = ''user'', timestamp = now\<rparr>],
                        inputText := []\<rparr>, console := console w @ [e]\<rparr>)"
    by (auto simp: console_error_def setInputText_def setMessages_def)
next
  assume "\<not> ok resp \<or> (\<exists>data. json resp = Some data \<and> completion_field data = None)"
  then have "\<exists>e. bot_text (Response resp) = Inl e"
    using bot_text_not_ok [of resp] bot_text_without_field [of resp]
    by (cases "ok resp") auto
  then obtain e where "bot_text (Response resp) = Inl e" ..
  from resume_on_failure [OF this, of now' w1]
  show "\<exists>e. handleSendMessage_resume (Response resp) now' w1
                   = (Returned, w1\<lparr>console := console w1 @ [e]\<rparr>)"
    by (auto simp: console_error_def)
qed

text \<open>The theorem with no credential, and with a status 500.\<close>

theorem no_bot_record_on_failure_witness:
  "trim (inputText (typed ''hello'')) \<noteq> []
   \<and> (\<exists>e. handleSendMessage (typed ''hello'') None ''10:00'' (fresh ''hello'')
          = (Returned, (fresh ''hello'')\<lparr>state := (state (fresh ''hello''))\<lparr>messages :=
               [\<lparr>msg_text = ''hello'', sender = ''user'', timestamp = ''10:00''\<rparr>],
               inputText := []\<rparr>, console := [e]\<rparr>))
   \<and> \<not> ok http_500
   \<and> (\<exists>e. handleSendMessage_resume (Response http_500) ''10:01'' (fresh [])
          = (Returned, (fresh [])\<lparr>console := [e]\<rparr>))"
  using no_bot_record_on_failure [where r = "typed ''hello''" and apiKey = None
      and resp = http_500 and now = "''10:00''" and w = "fresh ''hello''"
      and now' = "''10:01''" and ?w1.0 = "fresh []"]
  by (simp add: typed_def fresh_def http_500_def trim_def is_ws_def)

subsection \<open>C3: one user record, appended before any bot record\<close>


subsection \<open>C4: the transcript only grows at its end\<close>

text \<open>
  Claim C4.  Every change of the message sequence should extend it at the end and keep
  every record already there.  The bot record is appended with the updater form of
  \<open>setMessages\<close>, which reads the sequence of that moment.  The user record is
  written with the value form, \<open>setMessages([...messages, newMessage])\<close>, where
  \<open>messages\<close> is the sequence of the handler's render.  In the run below the user
  submits \<open>a\<close>, types \<open>b\<close>, the completion for \<open>a\<close> settles and appends its bot
  record, and the user submits \<open>b\<close> before React has rendered that update: the
  second submission writes the sequence of the old render plus the new user record,
  and the bot record that was in the transcript is no longer there.  With the render
  in between, the same events leave all three records in place.  The three runs give
  the same transcripts on either host.  On a host that leaves queued updates out of
  the render of a user event, the bot record is lost as well when the user types
  \<open>b\<close> only after the completion has settled (last conjunct).
\<close>

theorem stale_render_drops_bot_record:
  "shown (transcript (run Leaves_queued (Some ''sk'') mount
      [Expand, Change ''a'', Send ''10:00'', Change ''b'',
       Settle (Response (completion_response ''x'')) ''10:01'']))
     = [(''a'', ''user''), (''x'', ''bot'')]
   \<and> shown (transcript (run Leaves_queued (Some ''sk'') mount
      [Expand, Change ''a'', Send ''10:00'', Change ''b'',
       Settle (Response (completion_response ''x'')) ''10:01'', Send ''10:02'']))
     = [(''a'', ''user''), (''b'', ''user'')]
   \<and> shown (transcript (run Leaves_queued (Some ''sk'') mount
      [Expand, Change ''a'', Send ''10:00'', Change ''b'',
       Settle (Response (completion_response ''x'')) ''10:01'', Render, Send ''10:02'']))
     = [(''a'', ''user''), (''x'', ''bot''), (''b'', ''user'')]
   \<and> shown (transcript (run Takes_queued (Some ''sk'') mount
      [Expand, Change ''a'', Send ''10:00'', Change ''b'',
       Settle (Response (completion_response ''x'')) ''10:01'']))
     = [(''a'', ''user''), (''x'', ''bot'')]
   \<and> shown (transcript (run Takes_queued (Some ''sk'') mount
      [Expand, Change ''a'', Send ''10:00'', Change ''b'',
       Settle (Response (completion_response ''x'')) ''10:01'', Send ''10:02'']))
     = [(''a'', ''user''), (''b'', ''user'')]
   \<and> shown (transcript (run Takes_queued (Some ''sk'') mount
      [Expand, Change ''a'', Send ''10:00'', Change ''b'',
       Settle (Response (completion_response ''x'')) ''10:01'', Render, Send ''10:02'']))
     = [(''a'', ''user''), (''x'', ''bot''), (''b'', ''user'')]
   \<and> shown (transcript (run Leaves_queued (Some ''sk'') mount
      [Expand, Change ''a'', Send ''10:00'',
       Settle (Response (completion_response ''x'')) ''10:01'', Change ''b'', Send ''10:02'']))
     = [(''a'', ''user''), (''b'', ''user'')]"
  by (simp add: run_def mount_def ChatWidget_init_def commit_def dispatch_def transcript_def
      shown_def handleSendMessage_def handleSendMessage_resume_def bot_text_def
      completion_text_def completion_response_def check_key_def trim_def is_ws_def Let_def)

subsection \<open>C5: blank input is rejected\<close>

text \<open>
  Claim C5.  When the input is empty or consists of white space only, the handler
  returns at once in both widgets: the world is unchanged, so no record is appended,
  the input box keeps its text, nothing is logged and no request is issued.
\<close>

theorem blank_input_rejected:
  assumes "\<forall>c\<in>set (inputText r). is_ws c"
  shows "handleSendMessage r apiKey now w = (Returned, w)
       \<and> handleSendMessage_sim r now w = (Returned, w)"
  using assms by (simp add: handleSendMessage_def handleSendMessage_sim_def trim_empty_iff)

text \<open>The theorem for the input space, tab, space.\<close>

theorem blank_input_rejected_witness:
  "list_all is_ws (inputText (typed [CHR 0x20, CHR 0x09, CHR 0x20]))
   \<and> handleSendMessage (typed [CHR 0x20, CHR 0x09, CHR 0x20]) (Some ''sk'') ''10:00'' (fresh [CHR 0x20, CHR 0x09, CHR 0x20])
       = (Returned, fresh [CHR 0x20, CHR 0x09, CHR 0x20])
   \<and> handleSendMessage_sim (typed [CHR 0x20, CHR 0x09, CHR 0x20]) ''10:00'' (fresh [CHR 0x20, CHR 0x09, CHR 0x20])
       = (Returned, fresh [CHR 0x20, CHR 0x09, CHR 0x20])"
  using blank_input_rejected [of "typed [CHR 0x20, CHR 0x09, CHR 0x20]" "Some ''sk''" "''10:00''"
      "fresh [CHR 0x20, CHR 0x09, CHR 0x20]"]
  by (simp add: typed_def is_ws_def list_all_iff)

subsection \<open>C6: the outbound request\<close>

text \<open>
  Claim C6, as the code has it.  A non-empty input is submitted.  When the credential
  is present (set and not the empty string), the event part of the handler issues
  exactly one request and waits for it: a POST to the completion endpoint, with the
  JSON content type and the credential as bearer token in its headers, and a body of
  the model identifier, the prompt \<open>Context: \<close> context, two line feeds,
  \<open>User: \<close> the raw input, two line feeds, \<open>Bot:\<close>, the maximum output length
  150 and the temperature 0.7.  When the credential is missing, the handler returns
  without issuing a request.  The continuation never issues a request.
\<close>

theorem one_request_when_key_present:
  assumes nonempty: "trim (inputText r) \<noteq> []"
  shows "(apiKey = Some key \<and> key \<noteq> [] \<longrightarrow>
            fst (handleSendMessage r apiKey now w) = Pending
          \<and> requests (snd (handleSendMessage r apiKey now w))
              = requests w @
                [\<lparr>url = ''https://api.openai.com/v1/completions'',
                  http_method = ''POST'',
                  headers = [(''Content-Type'', ''application/json''),
                             (''Authorization'', ''Bearer '' @ key)],
                  body = JObj [(''model'', JStr ''text-davinci-003''),
                               (''prompt'', JStr (''Context: '' @ fileContent r
                                  @ [CHR 0x0A, CHR 0x0A] @ ''User: '' @ inputText r
                                  @ [CHR 0x0A, CHR 0x0A] @ ''Bot:'')),
                               (''max_tokens'', JNum 150),
                               (''temperature'', JNum (7 / 10))]\<rparr>])
       \<and> (apiKey = None \<or> apiKey = Some [] \<longrightarrow>
            fst (handleSendMessage r apiKey now w) = Returned
          \<and> requests (snd (handleSendMessage r apiKey now w)) = requests w)
       \<and> requests (snd (handleSendMessage_resume fr now' w1)) = requests w1"
proof (intro conjI impI)
  assume k: "apiKey = Some key \<and> key \<noteq> []"
  then have send: "handleSendMessage r apiKey now w =
    (Pending,
     fetch (completion_request key (fileContent r) (inputText r))
       (setInputText []
         (setMessages (messages r @ [\<lparr>msg_text = inputText r, sender = ''user'', timestamp = now\<rparr>]) w)))"
    using send_with_key [OF nonempty, of key now w] by simp
  show "fst (handleSendMessage r apiKey now w) = Pending" by (simp add: send)
  show "requests (snd (handleSendMessage r apiKey now w))
              = requests w @
                [\<lparr>url = ''https://api.openai.com/v1/completions'',
                  http_method = ''POST'',
                  headers = [(''Content-Type'', ''application/json''),
                             (''Authorization'', ''Bearer '' @ key)],
                  body = JObj [(''model'', JStr ''text-davinci-003''),
                               (''prompt'', JStr (''Context: '' @ fileContent r
                                  @ [CHR 0x0A, CHR 0x0A] @ ''User: '' @ inputText r
                                  @ [CHR 0x0A, CHR 0x0A] @ ''Bot:'')),
                               (''max_tokens'', JNum 150),
                               (''temperature'', JNum (7 / 10))]\<rparr>]"
    by (simp add: send completion_request_def prompt_of_def newline_def)
next
  assume m: "apiKey = None \<or> apiKey = Some []"
  from send_without_key [OF nonempty m, of now w]
  show "fst (handleSendMessage r apiKey now w) = Returned" by auto
  from send_without_key [OF nonempty m, of now w]
  show "requests (snd (handleSendMessage r apiKey now w)) = requests w" by auto
next
  show "requests (snd (handleSendMessage_resume fr now' w1)) = requests w1"
    by (cases "bot_text fr") (simp_all add: resume_on_failure resume_on_success)
qed

text \<open>The theorem for the input \<open>hello\<close>, with the credential \<open>sk\<close> and without one.\<close>

theorem one_request_when_key_present_witness:
  "trim (inputText (typed ''hello'')) \<noteq> []
   \<and> fst (handleSendMessage (typed ''hello'') (Some ''sk'') ''10:00'' (fresh ''hello'')) = Pending
   \<and> map http_method (requests (snd (handleSendMessage (typed ''hello'') (Some ''sk'') ''10:00'' (fresh ''hello''))))
       = [''POST'']
   \<and> concat (map headers (requests (snd (handleSendMessage (typed ''hello'') (Some ''sk'') ''10:00'' (fresh ''hello'')))))
       = [(''Content-Type'', ''application/json''), (''Authorization'', ''Bearer sk'')]
   \<and> requests (snd (handleSendMessage (typed ''hello'') None ''10:00'' (fresh ''hello''))) = []"
  using one_request_when_key_present [where r = "typed ''hello''" and apiKey = "Some ''sk''"
      and key = "''sk''" and now = "''10:00''" and w = "fresh ''hello''"]
    one_request_when_key_present [where r = "typed ''hello''" and apiKey = None
      and now = "''10:00''" and w = "fresh ''hello''"]
  by (simp add: typed_def fresh_def trim_def is_ws_def)

text \<open>
  Claim C6 as stated asks for exactly one request for every submitted non-empty input.
  The handler checks the credential before it calls \<open>fetch\<close>: with no credential the
  input \<open>hello\<close> is submitted and no request is issued, neither by the event part nor
  by the end of the exchange.
\<close>

theorem request_without_key_counterexample:
  "trim (inputText (typed ''hello'')) \<noteq> []
   \<and> requests (snd (handleSendMessage (typed ''hello'') None ''10:00'' (fresh ''hello''))) = []
   \<and> requests (snd (exchange (typed ''hello'') None ''10:00''
        (Response (completion_response '' hi there '')) ''10:01'' (fresh ''hello''))) = []"
  by (simp add: typed_def fresh_def trim_def is_ws_def handleSendMessage_def exchange_def
      check_key_def catch_block_def Let_def)

subsection \<open>C7: expanding and collapsing\<close>

text \<open>
  Claim C7.  The two toggle buttons call \<open>setIsExpanded(true)\<close> and
  \<open>setIsExpanded(false)\<close>.  After any sequence of such calls the state differs from
  the one before in the \<open>isExpanded\<close> cell at most: the message sequence, the pending
  input text and the cached context document are the same, and so are the console and
  the requests issued.
\<close>

theorem toggle_frame:
  "(\<exists>b. state (fold setIsExpanded bs w) = (state w)\<lparr>isExpanded := b\<rparr>)
   \<and> messages (state (fold setIsExpanded bs w)) = messages (state w)
   \<and> inputText (state (fold setIsExpanded bs w)) = inputText (state w)
   \<and> fileContent (state (fold setIsExpanded bs w)) = fileContent (state w)
   \<and> console (fold setIsExpanded bs w) = console w
   \<and> requests (fold setIsExpanded bs w) = requests w"
proof -
  obtain b where "fold setIsExpanded bs w = w\<lparr>state := (state w)\<lparr>isExpanded := b\<rparr>\<rparr>"
    using fold_setIsExpanded by blast
  then show ?thesis by simp blast
qed

subsection \<open>C8: the timestamp\<close>




subsection \<open>C9: the user record keeps the raw input\<close>

text \<open>
  Claim C9.  When the trimmed input is not empty, the record the handler appends has
  the input string itself as its text, white space at either end included, in both
  widgets; trimming decides only whether the input is submitted.
\<close>

theorem user_text_raw:
  assumes "trim (inputText r) \<noteq> []"
  shows "messages (state (snd (handleSendMessage r apiKey now w)))
           = messages r @ [\<lparr>msg_text = inputText r, sender = ''user'', timestamp = now\<rparr>]
       \<and> messages (state (snd (handleSendMessage_sim r now w)))
           = messages r @ [\<lparr>msg_text = inputText r, sender = ''user'', timestamp = now\<rparr>]"
  using assms
  by (simp add: handleSendMessage_def handleSendMessage_sim_def catch_block_def Let_def
      split: sum.splits)

text \<open>The theorem for an input with two leading spaces and a trailing one.\<close>

theorem user_text_raw_witness:
  "trim (inputText (typed ''  hi '')) \<noteq> []
   \<and> messages (state (snd (handleSendMessage (typed ''  hi '') (Some ''sk'') ''10:00'' (fresh ''  hi ''))))
       = [\<lparr>msg_text = ''  hi '', sender = ''user'', timestamp = ''10:00''\<rparr>]
   \<and> messages (state (snd (handleSendMessage_sim (typed ''  hi '') ''10:00'' (fresh ''  hi ''))))
       = [\<lparr>msg_text = ''  hi '', sender = ''user'', timestamp = ''10:00''\<rparr>]"
  using user_text_raw [of "typed ''  hi ''" "Some ''sk''" "''10:00''" "fresh ''  hi ''"]
  by (simp add: typed_def trim_def is_ws_def)

subsection \<open>C10: no exception leaves the handler\<close>

text \<open>
  Claim C10.  Neither the event part of the handler nor its continuation ends with an
  uncaught exception.  A missing credential ends the event part with the user record
  appended, one console line and nothing else.  Whenever anything between the settling
  of \<open>fetch\<close> and the bot record throws, the continuation returns with one console
  line and no other change.  That covers each failure: \<open>fetch\<close> rejecting; a
  non-success status whose body is not JSON, or is JSON without an \<open>error\<close> member,
  or has the error message; a success payload without \<open>choices\<close>, with an empty
  \<open>choices\<close> array, or whose first choice has no \<open>text\<close>.
\<close>

theorem no_exception_escapes:
  "(\<forall>e. fst (handleSendMessage r apiKey now w) \<noteq> Threw e)
   \<and> (\<forall>e. fst (handleSendMessage_resume fr now' w1) \<noteq> Threw e)
   \<and> (trim (inputText r) \<noteq> [] \<and> (apiKey = None \<or> apiKey = Some []) \<longrightarrow>
        (\<exists>m. handleSendMessage r apiKey now w
               = (Returned, w\<lparr>state := (state w)\<lparr>messages := messages r @
                    [\<lparr>msg_text = inputText r, sender = ''user'', timestamp = now\<rparr>],
                    inputText := []\<rparr>, console := console w @ [Error m]\<rparr>)))
   \<and> (\<forall>e. bot_text fr = Inl e \<longrightarrow>
          handleSendMessage_resume fr now' w1 = (Returned, w1\<lparr>console := console w1 @ [e]\<rparr>))
   \<and> bot_text Rejected = Inl NetworkError
   \<and> (\<not> ok resp \<longrightarrow> bot_text (Response resp) = Inl (api_error resp))
   \<and> (ok resp \<and> json resp = Some data \<and> completion_field data = None \<longrightarrow>
        (\<exists>e. bot_text (Response resp) = Inl e))
   \<and> (\<not> ok resp \<and> json resp = None \<longrightarrow> bot_text (Response resp) = Inl SyntaxError)
   \<and> (\<not> ok resp \<and> json resp = Some errorData \<and> get_prop errorData ''error'' = Inr JUndefined \<longrightarrow>
        bot_text (Response resp) = Inl TypeError)
   \<and> (\<not> ok resp \<and> json resp = Some errorData \<and> get_prop errorData ''error'' = Inr err
        \<and> get_prop err ''message'' = Inr m \<longrightarrow>
        bot_text (Response resp) = Inl (ApiError (status resp) m))
   \<and> (ok resp \<and> json resp = Some data \<and> get_prop data ''choices'' = Inr JUndefined \<longrightarrow>
        bot_text (Response resp) = Inl (Error ''Invalid response from OpenAI API.''))
   \<and> (ok resp \<and> json resp = Some data \<and> get_prop data ''choices'' = Inr (JArr []) \<longrightarrow>
        bot_text (Response resp) = Inl (Error ''Invalid response from OpenAI API.''))
   \<and> (ok resp \<and> json resp = Some data \<and> get_prop data ''choices'' = Inr (JArr (c # cs))
        \<and> get_prop c ''text'' = Inr JUndefined \<longrightarrow>
        bot_text (Response resp) = Inl TypeError)"
proof (intro conjI allI impI)
  fix e show "fst (handleSendMessage r apiKey now w) \<noteq> Threw e"
    using handleSendMessage_outcome [of r apiKey now w] by auto
next
  fix e show "fst (handleSendMessage_resume fr now' w1) \<noteq> Threw e"
    by (simp add: resume_outcome)
next
  assume a: "trim (inputText r) \<noteq> [] \<and> (apiKey = None \<or> apiKey = Some [])"
  then have "trim (inputText r) \<noteq> []" and "apiKey = None \<or> apiKey = Some []" by simp_all
  from send_without_key [OF this, of now w]
  show "\<exists>m. handleSendMessage r apiKey now w
               = (Returned, w\<lparr>state := (state w)\<lparr>messages := messages r @
                    [\<lparr>msg_text = inputText r, sender = ''user'', timestamp = now\<rparr>],
                    inputText := []\<rparr>, console := console w @ [Error m]\<rparr>)"
    by (auto simp: console_error_def setInputText_def setMessages_def)
next
  fix e assume "bot_text fr = Inl e"
  from resume_on_failure [OF this, of now' w1]
  show "handleSendMessage_resume fr now' w1 = (Returned, w1\<lparr>console := console w1 @ [e]\<rparr>)"
    by (simp add: console_error_def)
next
  show "bot_text Rejected = Inl NetworkError" by (simp add: bot_text_def)
next
  assume "\<not> ok resp"
  then show "bot_text (Response resp) = Inl (api_error resp)" by (rule bot_text_not_ok)
next
  assume "ok resp \<and> json resp = Some data \<and> completion_field data = None"
  then show "\<exists>e. bot_text (Response resp) = Inl e"
    using bot_text_without_field [of resp data] by simp
next
  assume "\<not> ok resp \<and> json resp = None"
  then show "bot_text (Response resp) = Inl SyntaxError"
    by (simp add: bot_text_def api_error_non_json)
next
  assume "\<not> ok resp \<and> json resp = Some errorData \<and> get_prop errorData ''error'' = Inr JUndefined"
  then show "bot_text (Response resp) = Inl TypeError"
    by (simp add: bot_text_def api_error_shapeless)
next
  assume "\<not> ok resp \<and> json resp = Some errorData \<and> get_prop errorData ''error'' = Inr err
        \<and> get_prop err ''message'' = Inr m"
  then show "bot_text (Response resp) = Inl (ApiError (status resp) m)"
    by (simp add: bot_text_def api_error_def)
next
  assume "ok resp \<and> json resp = Some data \<and> get_prop data ''choices'' = Inr JUndefined"
  then show "bot_text (Response resp) = Inl (Error ''Invalid response from OpenAI API.'')"
    by (simp add: bot_text_def completion_text_def)
next
  assume "ok resp \<and> json resp = Some data \<and> get_prop data ''choices'' = Inr (JArr [])"
  then show "bot_text (Response resp) = Inl (Error ''Invalid response from OpenAI API.'')"
    by (simp add: bot_text_def completion_text_def)
next
  assume "ok resp \<and> json resp = Some data \<and> get_prop data ''choices'' = Inr (JArr (c # cs))
        \<and> get_prop c ''text'' = Inr JUndefined"
  then show "bot_text (Response resp) = Inl TypeError"
    by (simp add: bot_text_def completion_text_def)
qed

text \<open>The theorem for a status 502 with a body that is not JSON, and for a missing credential.\<close>

theorem no_exception_escapes_witness:
  "\<not> ok bad_gateway \<and> json bad_gateway = None
   \<and> handleSendMessage_resume (Response bad_gateway) ''10:01'' (fresh [])
       = (Returned, (fresh [])\<lparr>console := [SyntaxError]\<rparr>)
   \<and> trim (inputText (typed ''hello'')) \<noteq> []
   \<and> fst (handleSendMessage (typed ''hello'') None ''10:00'' (fresh ''hello'')) = Returned"
  using no_exception_escapes [where r = "typed ''hello''" and apiKey = None and now = "''10:00''"
      and w = "fresh ''hello''" and fr = "Response bad_gateway" and resp = bad_gateway
      and now' = "''10:01''" and ?w1.0 = "fresh []"]
  by (auto simp: bad_gateway_def typed_def fresh_def trim_def is_ws_def)

end
